theory Spec2Isabelle
  imports Main "HOL-Library.Word"
begin

section \<open>Data model of \<open>cmd/boulder-publisher/main.go\<close>\<close>

text \<open>
  A Go \<open>error\<close> value is modelled by the text it carries. A call that returns
  \<open>(v, err)\<close> is a value of \<open>error + 'a\<close>: \<open>Inl err\<close> when \<open>err != nil\<close>,
  \<open>Inr v\<close> otherwise; a call that returns only \<open>err\<close> is an \<open>error + unit\<close>.
\<close>

datatype error = Error string

type_synonym bytes = "8 word list"

text \<open>\<open>ct.ASN1Cert\<close> and the one field of \<open>x509.Certificate\<close> that \<open>main\<close> reads.\<close>

record ASN1Cert =
  Data :: bytes

record x509_Certificate =
  Raw :: bytes

text \<open>\<open>issuance.IssuerNameID\<close> is an integer identifier; \<open>main\<close> only uses it as a map key.\<close>

type_synonym IssuerNameID = "64 word"

text \<open>\<open>map[issuance.IssuerNameID][]ct.ASN1Cert\<close>\<close>

type_synonym bundles_map = "IssuerNameID \<rightharpoonup> ASN1Cert list"

text \<open>
  The \<open>config\<close> struct, flattened. \<open>Chains\<close> is a Go slice of slices: \<open>None\<close> is the
  \<open>nil\<close> slice (the key is absent from the configuration file), \<open>Some []\<close> is a
  slice that is present and has no element. The \<open>TLS\<close> and \<open>Syslog\<close> parts are only
  handed to collaborators and are left out.
\<close>

record config =
  GRPC_Address :: string
  DebugAddr :: string
  Features :: "string \<rightharpoonup> bool"
  BlockProfileRate :: int
  UserAgent :: string
  Chains :: "string list list option"
  IntermediateBundleFilename :: string

text \<open>The three command-line flags: \<open>-addr\<close>, \<open>-debug-addr\<close>, \<open>-config\<close>.\<close>

record flags =
  grpcAddr :: string
  debugAddr :: string
  configFile :: string

text \<open>
  The collaborators of \<open>main\<close>, which live in other packages: what each of them
  returns is a parameter of the model. \<open>LoadChain\<close> returns the issuer certificate
  and the bundle (its second result is discarded by \<open>main\<close> and is left out);
  \<open>NameID\<close> is the method \<open>issuer.NameID()\<close>; \<open>Serve\<close> is what \<open>grpcSrv.Serve(l)\<close>
  returns once serving has ended; \<open>shutdown_induced\<close> tells which errors are a mere
  consequence of a requested graceful stop.
\<close>

record 'iss collaborators =
  ReadConfigFile :: "string \<Rightarrow> error + config"
  features_Set :: "(string \<rightharpoonup> bool) \<Rightarrow> error + unit"
  LoadChain :: "string list \<Rightarrow> error + ('iss \<times> ASN1Cert list)"
  NameID :: "'iss \<Rightarrow> IssuerNameID"
  LoadCertBundle :: "string \<Rightarrow> error + x509_Certificate list"
  TLS_Load :: "error + unit"
  NewServer :: "string \<Rightarrow> error + unit"
  Serve :: "error + unit"
  shutdown_induced :: "error \<Rightarrow> bool"

section \<open>Effects: a trace of calls and an early exit\<close>

text \<open>The two calls made by the callback handed to \<open>cmd.CatchSignals\<close>.\<close>

datatype shutdown_action = hs_Shutdown | grpcSrv_GracefulStop

text \<open>
  Every call of \<open>main\<close> that reaches outside the function is recorded as an event,
  in program order.
\<close>

datatype event =
    E_flag_Usage
  | E_ReadConfigFile string
  | E_features_Set
  | E_SetBlockProfileRate int
  | E_StatsAndLogging string
  | E_Info_VersionString
  | E_AuditErr string
  | E_LoadChain "string list"
  | E_LoadCertBundle string
  | E_Fatal string error
  | E_TLS_Load
  | E_Clock
  | E_publisher_New "ASN1Cert list" bundles_map string
  | E_NewServerMetrics
  | E_NewServer string
  | E_NewPublisherServerWrapper
  | E_RegisterPublisherServer
  | E_health_NewServer
  | E_RegisterHealthServer
  | E_CatchSignals "shutdown_action list"
  | E_Serve
  | E_AuditPanic

text \<open>
  A computation yields the events it caused and either a value or the status
  given to \<open>os.Exit\<close>, after which nothing else runs.
\<close>

datatype 'a step = Exit nat | Return 'a

type_synonym 'a proc = "event list \<times> 'a step"

definition ret :: "'a \<Rightarrow> 'a proc" where
  "ret a = ([], Return a)"

definition call :: "event \<Rightarrow> 'a \<Rightarrow> 'a proc" where
  "call ev a = ([ev], Return a)"

definition os_Exit :: "nat \<Rightarrow> 'a proc" where
  "os_Exit n = ([], Exit n)"

fun bind :: "'a proc \<Rightarrow> ('a \<Rightarrow> 'b proc) \<Rightarrow> 'b proc" where
  "bind (tr, Exit n) f = (tr, Exit n)"
| "bind (tr, Return a) f = (case f a of (tr', r) \<Rightarrow> (tr @ tr', r))"

text \<open>The events of a run, and the status the process ends with (\<open>0\<close> when \<open>main\<close> returns).\<close>

definition trace :: "'a proc \<Rightarrow> event list" where
  "trace p = fst p"

definition exit_status :: "'a proc \<Rightarrow> nat" where
  "exit_status p = (case snd p of Exit n \<Rightarrow> n | Return _ \<Rightarrow> 0)"

text \<open>A \<open>for _, x := range xs\<close> loop whose body updates the loop state \<open>s\<close>.\<close>

fun for_range :: "'a list \<Rightarrow> ('a \<Rightarrow> 's \<Rightarrow> 's proc) \<Rightarrow> 's \<Rightarrow> 's proc" where
  "for_range [] body s = ret s"
| "for_range (x # xs) body s = bind (body x s) (for_range xs body)"

section \<open>Helpers of package \<open>cmd\<close>\<close>

text \<open>
  Modelled from the spec: \<open>cmd.FailOnError\<close>, which is not part of the source file.
  The process "exits with a non-zero status and a descriptive message on any
  startup/configuration failure"; with no error the program goes on. The status is
  taken to be \<open>1\<close>, the one \<open>main\<close> passes to \<open>os.Exit\<close> itself. The model
  of \<open>FailOnError\<close> takes the whole result of the call it guards, so that the value
  returned along with a \<open>nil\<close> error is what the program goes on with.
\<close>

definition FailOnError :: "error + 'a \<Rightarrow> string \<Rightarrow> 'a proc" where
  "FailOnError r msg =
     (case r of
        Inl err \<Rightarrow> bind (call (E_Fatal msg err) ()) (\<lambda>_. os_Exit 1)
      | Inr a \<Rightarrow> ret a)"

text \<open>
  Modelled from the spec: \<open>cmd.FilterShutdownErrors\<close>, which is not part of the
  source file. "Errors that occur purely as a consequence of a requested shutdown
  must be classified as benign and suppressed; only genuine unexpected failures
  during Serving are surfaced as errors."
\<close>

definition FilterShutdownErrors :: "(error \<Rightarrow> bool) \<Rightarrow> error + unit \<Rightarrow> error + unit" where
  "FilterShutdownErrors benign r =
     (case r of
        Inl err \<Rightarrow> if benign err then Inr () else Inl err
      | Inr u \<Rightarrow> Inr u)"

section \<open>\<open>main\<close>\<close>

text \<open>Lines 94 to 100: the body of the loop over \<open>c.Publisher.Chains\<close>.\<close>

definition load_chain :: "'iss collaborators \<Rightarrow> string list \<Rightarrow> bundles_map \<Rightarrow> bundles_map proc" where
  "load_chain env files bundles =
     bind (call (E_LoadChain files) (LoadChain env files)) (\<lambda>r.
     bind (FailOnError r ''Failed to load chain'') (\<lambda>(issuer, bundle).
     let id = NameID env issuer in
     ret (bundles(id \<mapsto> bundle))))"

text \<open>Lines 106 to 108: the loop that appends the raw bytes of each certificate.\<close>

fun append_certs :: "x509_Certificate list \<Rightarrow> ASN1Cert list \<Rightarrow> ASN1Cert list" where
  "append_certs [] bundle = bundle"
| "append_certs (cert # rest) bundle = append_certs rest (bundle @ [\<lparr>Data = Raw cert\<rparr>])"

text \<open>
  Lines 91 to 109. The \<open>bundle\<close> assigned inside the loop over the chains is a
  variable of the loop body (declared by \<open>:=\<close>), so the outer \<open>bundle\<close> stays empty
  on that branch.
\<close>

definition resolve_bundles :: "'iss collaborators \<Rightarrow> config \<Rightarrow> (ASN1Cert list \<times> bundles_map) proc" where
  "resolve_bundles env c =
     (let bundle = []; bundles = Map.empty in
      case Chains c of
        Some filesList \<Rightarrow>
          bind (for_range filesList (load_chain env) bundles) (\<lambda>bundles.
          ret (bundle, bundles))
      | None \<Rightarrow>
          bind (call (E_LoadCertBundle (IntermediateBundleFilename c))
                  (LoadCertBundle env (IntermediateBundleFilename c))) (\<lambda>r.
          bind (FailOnError r ''Failed to load CT submission bundle'') (\<lambda>pemBundle.
          ret (append_certs pemBundle bundle, bundles))))"

text \<open>The callback of lines 126 to 129.\<close>

definition shutdown_callback :: "shutdown_action list" where
  "shutdown_callback = [hs_Shutdown, grpcSrv_GracefulStop]"

text \<open>Lines 111 to 132.\<close>

definition serve :: "'iss collaborators \<Rightarrow> config \<Rightarrow> ASN1Cert list \<Rightarrow> bundles_map \<Rightarrow> unit proc" where
  "serve env c bundle bundles =
     bind (call E_TLS_Load (TLS_Load env)) (\<lambda>r.
     bind (FailOnError r ''TLS config'') (\<lambda>_.
     bind (call E_Clock ()) (\<lambda>_.
     bind (call (E_publisher_New bundle bundles (UserAgent c)) ()) (\<lambda>_.
     bind (call E_NewServerMetrics ()) (\<lambda>_.
     bind (call (E_NewServer (GRPC_Address c)) (NewServer env (GRPC_Address c))) (\<lambda>r.
     bind (FailOnError r ''Unable to setup Publisher gRPC server'') (\<lambda>_.
     bind (call E_NewPublisherServerWrapper ()) (\<lambda>_.
     bind (call E_RegisterPublisherServer ()) (\<lambda>_.
     bind (call E_health_NewServer ()) (\<lambda>_.
     bind (call E_RegisterHealthServer ()) (\<lambda>_.
     bind (call (E_CatchSignals shutdown_callback) ()) (\<lambda>_.
     bind (call E_Serve (FilterShutdownErrors (shutdown_induced env) (Serve env))) (\<lambda>err.
     bind (FailOnError err ''Publisher gRPC service failed'') (\<lambda>_.
     call E_AuditPanic ()))))))))))))))"

text \<open>Lines 81 to 109, then the rest.\<close>

definition startup :: "'iss collaborators \<Rightarrow> config \<Rightarrow> unit proc" where
  "startup env c =
     bind (call (E_StatsAndLogging (DebugAddr c)) ()) (\<lambda>_.
     bind (call E_Info_VersionString ()) (\<lambda>_.
     if IntermediateBundleFilename c = [] \<and> Chains c = None then
       bind (call (E_AuditErr ''No CT submission bundle or chains provided'') ()) (\<lambda>_.
       os_Exit 1)
     else
       bind (resolve_bundles env c) (\<lambda>(bundle, bundles).
       serve env c bundle bundles)))"

text \<open>Lines 71 to 79: the overrides from the flags and the default user agent.\<close>

definition apply_overrides :: "flags \<Rightarrow> config \<Rightarrow> config" where
  "apply_overrides fl c =
     (let c = (if grpcAddr fl \<noteq> [] then c\<lparr>GRPC_Address := grpcAddr fl\<rparr> else c);
          c = (if debugAddr fl \<noteq> [] then c\<lparr>DebugAddr := debugAddr fl\<rparr> else c);
          c = (if UserAgent c = [] then c\<lparr>UserAgent := ''certificate-transparency-go/1.0''\<rparr> else c)
      in c)"

text \<open>The whole of \<open>main\<close>.\<close>

definition main :: "'iss collaborators \<Rightarrow> flags \<Rightarrow> unit proc" where
  "main env fl =
     (if configFile fl = [] then
        bind (call E_flag_Usage ()) (\<lambda>_. os_Exit 1)
      else
        bind (call (E_ReadConfigFile (configFile fl)) (ReadConfigFile env (configFile fl))) (\<lambda>r.
        bind (FailOnError r ''Reading JSON config file into config structure'') (\<lambda>c.
        bind (call E_features_Set (features_Set env (Features c))) (\<lambda>r.
        bind (FailOnError r ''Failed to set feature flags'') (\<lambda>_.
        bind (call (E_SetBlockProfileRate (BlockProfileRate c)) ()) (\<lambda>_.
        startup env (apply_overrides fl c)))))))"

section \<open>Notions used to state the properties\<close>

text \<open>
  What the loop body observes of one chain definition: the error of \<open>LoadChain\<close>, or
  the identity of the issuer together with the bundle.
\<close>

definition chain_result :: "'iss collaborators \<Rightarrow> string list \<Rightarrow> error + (IssuerNameID \<times> ASN1Cert list)" where
  "chain_result env files =
     map_sum (\<lambda>err. err) (\<lambda>(issuer, bundle). (NameID env issuer, bundle)) (LoadChain env files)"

text \<open>
  The run gets past lines 58 to 67: a configuration file is named, it is read into
  \<open>c\<close>, and the feature flags are accepted.
\<close>

definition loads_config :: "'iss collaborators \<Rightarrow> flags \<Rightarrow> config \<Rightarrow> bool" where
  "loads_config env fl c \<longleftrightarrow>
     configFile fl \<noteq> [] \<and> ReadConfigFile env (configFile fl) = Inr c \<and>
     features_Set env (Features c) = Inr ()"

text \<open>The events of lines 64 to 83, which come before the check of the chain source.\<close>

definition preamble :: "flags \<Rightarrow> config \<Rightarrow> event list" where
  "preamble fl c =
     [E_ReadConfigFile (configFile fl), E_features_Set, E_SetBlockProfileRate (BlockProfileRate c),
      E_StatsAndLogging (DebugAddr (apply_overrides fl c)), E_Info_VersionString]"

text \<open>
  What a run hands to the rest of the service: the arguments of every call of
  \<open>publisher.New\<close> (the flat bundle, the per-issuer mapping, the user agent).
\<close>

fun exposed :: "event list \<Rightarrow> (ASN1Cert list \<times> bundles_map \<times> string) list" where
  "exposed [] = []"
| "exposed (E_publisher_New b m ua # tr) = (b, m, ua) # exposed tr"
| "exposed (_ # tr) = exposed tr"

section \<open>A concrete installation\<close>

text \<open>
  Issuer certificates are numbered; two chain definitions start with the same
  intermediate \<open>int-a.pem\<close>, a third one with another intermediate.
\<close>

definition ex_LoadChain :: "string list \<Rightarrow> error + (nat \<times> ASN1Cert list)" where
  "ex_LoadChain files =
     (if files = [''int-a.pem'', ''root-x.pem''] then Inr (1, [\<lparr>Data = [1]\<rparr>])
      else if files = [''int-a.pem'', ''root-y.pem''] then Inr (1, [\<lparr>Data = [2]\<rparr>])
      else if files = [''int-b.pem'', ''root-x.pem''] then Inr (2, [\<lparr>Data = [1]\<rparr>])
      else Inl (Error ''cannot load chain''))"

definition ex_LoadCertBundle :: "string \<Rightarrow> error + x509_Certificate list" where
  "ex_LoadCertBundle path =
     (if path = ''bundle.pem'' then Inr [\<lparr>Raw = [7]\<rparr>, \<lparr>Raw = [8]\<rparr>]
      else Inl (Error ''cannot read bundle''))"

definition ex_env :: "config \<Rightarrow> error + unit \<Rightarrow> nat collaborators" where
  "ex_env c served =
     \<lparr>ReadConfigFile = (\<lambda>path. if path = ''publisher.json'' then Inr c
                                 else Inl (Error ''cannot read config'')),
      features_Set = (\<lambda>_. Inr ()),
      LoadChain = ex_LoadChain,
      NameID = word_of_nat,
      LoadCertBundle = ex_LoadCertBundle,
      TLS_Load = Inr (),
      NewServer = (\<lambda>_. Inr ()),
      Serve = served,
      shutdown_induced = (\<lambda>err. err = Error ''use of closed network connection'')\<rparr>"

definition ex_flags :: flags where
  "ex_flags = \<lparr>grpcAddr = [], debugAddr = [], configFile = ''publisher.json''\<rparr>"

definition ex_config :: "string list list option \<Rightarrow> string \<Rightarrow> config" where
  "ex_config cs legacy =
     \<lparr>GRPC_Address = '':9091'', DebugAddr = '':8009'', Features = Map.empty,
      BlockProfileRate = 0, UserAgent = [], Chains = cs,
      IntermediateBundleFilename = legacy\<rparr>"

section \<open>Sequencing and the two loops\<close>

lemma bind_ret: "bind (ret a) f = f a"
  by (cases "f a") (simp add: ret_def)

lemma bind_call: "bind (call ev a) f = (ev # fst (f a), snd (f a))"
  by (cases "f a") (simp add: call_def)

lemma bind_pair:
  "bind (tr, r) f =
     (case r of Exit n \<Rightarrow> (tr, Exit n) | Return a \<Rightarrow> (tr @ fst (f a), snd (f a)))"
  by (cases r; cases "f (case r of Return a \<Rightarrow> a)") auto

lemma load_chain_eq:
  "load_chain env files bundles =
     (case chain_result env files of
        Inl err \<Rightarrow> ([E_LoadChain files, E_Fatal ''Failed to load chain'' err], Exit 1)
      | Inr (i, b) \<Rightarrow> ([E_LoadChain files], Return (bundles(i \<mapsto> b))))"
  by (simp add: load_chain_def chain_result_def bind_call bind_ret FailOnError_def os_Exit_def
        ret_def split: sum.splits prod.splits)

lemma map_add_upd_rev:
  "m(i \<mapsto> b) ++ map_of (rev rest) = m ++ map_of (rev ((i, b) # rest))"
  by (rule ext) (simp add: map_add_def split: option.splits)

text \<open>When every chain loads, the loop ends with the map in which the last entry of an issuer wins.\<close>

lemma load_chains_ok:
  "map (chain_result env) defs = map Inr entries \<Longrightarrow>
   for_range defs (load_chain env) m = (map E_LoadChain defs, Return (m ++ map_of (rev entries)))"
proof (induction defs arbitrary: m entries)
  case Nil
  then show ?case by (simp add: ret_def)
next
  case (Cons files defs)
  then obtain en rest where e: "entries = en # rest" "chain_result env files = Inr en"
    "map (chain_result env) defs = map Inr rest" by (cases entries) auto
  obtain i b where en: "en = (i, b)" by (cases en)
  have step: "load_chain env files m = ([E_LoadChain files], Return (m(i \<mapsto> b)))"
    using e(2) en by (simp add: load_chain_eq)
  have "for_range (files # defs) (load_chain env) m =
          (E_LoadChain files # map E_LoadChain defs, Return (m(i \<mapsto> b) ++ map_of (rev rest)))"
    by (simp only: for_range.simps step bind.simps Cons.IH[OF e(3)] prod.case append.simps)
  then show ?case
    by (simp only: map_add_upd_rev e(1) en list.map)
qed

text \<open>The loop stops at the first chain that does not load.\<close>

lemma load_chains_fail:
  "map (chain_result env) pre = map Inr entries \<Longrightarrow> chain_result env bad = Inl err \<Longrightarrow>
   for_range (pre @ bad # rest) (load_chain env) m =
     (map E_LoadChain pre @ [E_LoadChain bad, E_Fatal ''Failed to load chain'' err], Exit 1)"
proof (induction pre arbitrary: m entries)
  case Nil
  have "load_chain env bad m = ([E_LoadChain bad, E_Fatal ''Failed to load chain'' err], Exit 1)"
    using Nil.prems(2) by (simp add: load_chain_eq)
  then show ?case
    by (simp only: append.simps for_range.simps bind.simps list.map)
next
  case (Cons files pre)
  then obtain en rest' where e: "entries = en # rest'" "chain_result env files = Inr en"
    "map (chain_result env) pre = map Inr rest'" by (cases entries) auto
  obtain i b where en: "en = (i, b)" by (cases en)
  have step: "load_chain env files m = ([E_LoadChain files], Return (m(i \<mapsto> b)))"
    using e(2) en by (simp add: load_chain_eq)
  show ?case
    by (simp only: append.simps for_range.simps step bind.simps
          Cons.IH[OF e(3) Cons.prems(2)] prod.case list.map)
qed

text \<open>Either every chain of a list loads, or there is a first one that does not.\<close>

lemma chain_results_cases:
  obtains (ok) entries where "map (chain_result env) defs = map Inr entries"
  | (fail) pre bad rest err entries where "defs = pre @ bad # rest"
      "map (chain_result env) pre = map Inr entries" "chain_result env bad = Inl err"
proof (cases "\<exists>files \<in> set defs. isl (chain_result env files)")
  case True
  then obtain pre bad rest where s: "defs = pre @ bad # rest" "isl (chain_result env bad)"
    "\<forall>f \<in> set pre. \<not> isl (chain_result env f)"
    using split_list_first_prop[of defs "\<lambda>f. isl (chain_result env f)"] by blast
  from s(2) obtain err where "chain_result env bad = Inl err"
    by (cases "chain_result env bad") auto
  moreover have "map (chain_result env) pre = map Inr (map (\<lambda>f. projr (chain_result env f)) pre)"
    using s(3) by (induction pre) auto
  ultimately show ?thesis using s(1) fail by blast
next
  case False
  then have "map (chain_result env) defs = map Inr (map (\<lambda>f. projr (chain_result env f)) defs)"
    by (induction defs) auto
  then show ?thesis using ok by blast
qed

lemma append_certs_eq:
  "append_certs pemBundle b = b @ map (\<lambda>cert. \<lparr>Data = Raw cert\<rparr>) pemBundle"
  by (induction pemBundle arbitrary: b) auto

section \<open>The stages of \<open>main\<close>\<close>

lemma apply_overrides_simps:
  "Chains (apply_overrides fl c) = Chains c"
  "IntermediateBundleFilename (apply_overrides fl c) = IntermediateBundleFilename c"
  "UserAgent (apply_overrides fl c) =
     (if UserAgent c = [] then ''certificate-transparency-go/1.0'' else UserAgent c)"
  by (simp_all add: apply_overrides_def Let_def)

lemma resolve_bundles_overrides:
  "resolve_bundles env (apply_overrides fl c) = resolve_bundles env c"
  by (simp add: resolve_bundles_def apply_overrides_simps Let_def split: option.splits)

lemma main_startup:
  "loads_config env fl c \<Longrightarrow>
   main env fl = bind ([E_ReadConfigFile (configFile fl), E_features_Set,
                        E_SetBlockProfileRate (BlockProfileRate c)], Return ())
                   (\<lambda>_. startup env (apply_overrides fl c))"
  by (simp add: loads_config_def main_def bind_call FailOnError_def bind_ret bind_pair)

lemma startup_resolve:
  "\<not> (IntermediateBundleFilename c = [] \<and> Chains c = None) \<Longrightarrow>
   startup env c = bind ([E_StatsAndLogging (DebugAddr c), E_Info_VersionString], Return ())
                     (\<lambda>_. bind (resolve_bundles env c) (\<lambda>(b, m). serve env c b m))"
  by (auto simp add: startup_def bind_call bind_pair)

lemma startup_invalid:
  "IntermediateBundleFilename c = [] \<Longrightarrow> Chains c = None \<Longrightarrow>
   startup env c = ([E_StatsAndLogging (DebugAddr c), E_Info_VersionString,
                     E_AuditErr ''No CT submission bundle or chains provided''], Exit 1)"
  by (simp add: startup_def bind_call os_Exit_def)

lemma main_resolve:
  "loads_config env fl c \<Longrightarrow> \<not> (IntermediateBundleFilename c = [] \<and> Chains c = None) \<Longrightarrow>
   main env fl = bind (preamble fl c, Return ())
                   (\<lambda>_. bind (resolve_bundles env c)
                           (\<lambda>(b, m). serve env (apply_overrides fl c) b m))"
  by (simp add: main_startup startup_resolve apply_overrides_simps resolve_bundles_overrides
        preamble_def bind_pair)

lemma resolve_chains_ok:
  "Chains c = Some defs \<Longrightarrow> map (chain_result env) defs = map Inr entries \<Longrightarrow>
   resolve_bundles env c = (map E_LoadChain defs, Return ([], map_of (rev entries)))"
  by (simp add: resolve_bundles_def load_chains_ok ret_def)

lemma resolve_chains_fail:
  "Chains c = Some (pre @ bad # rest) \<Longrightarrow> map (chain_result env) pre = map Inr entries \<Longrightarrow>
   chain_result env bad = Inl err \<Longrightarrow>
   resolve_bundles env c =
     (map E_LoadChain pre @ [E_LoadChain bad, E_Fatal ''Failed to load chain'' err], Exit 1)"
  by (simp add: resolve_bundles_def load_chains_fail)

lemma resolve_legacy_ok:
  "Chains c = None \<Longrightarrow> LoadCertBundle env (IntermediateBundleFilename c) = Inr pemBundle \<Longrightarrow>
   resolve_bundles env c =
     ([E_LoadCertBundle (IntermediateBundleFilename c)],
      Return (map (\<lambda>cert. \<lparr>Data = Raw cert\<rparr>) pemBundle, Map.empty))"
  by (simp add: resolve_bundles_def bind_call FailOnError_def bind_ret ret_def append_certs_eq)

lemma resolve_legacy_fail:
  "Chains c = None \<Longrightarrow> LoadCertBundle env (IntermediateBundleFilename c) = Inl err \<Longrightarrow>
   resolve_bundles env c =
     ([E_LoadCertBundle (IntermediateBundleFilename c),
       E_Fatal ''Failed to load CT submission bundle'' err], Exit 1)"
  by (simp add: resolve_bundles_def bind_call FailOnError_def bind_ret os_Exit_def)

text \<open>The four ways in which lines 111 to 132 can end.\<close>

lemma serve_cases:
  "serve env c b m =
     (case TLS_Load env of
        Inl err \<Rightarrow> ([E_TLS_Load, E_Fatal ''TLS config'' err], Exit 1)
      | Inr _ \<Rightarrow>
         (case NewServer env (GRPC_Address c) of
            Inl err \<Rightarrow>
              ([E_TLS_Load, E_Clock, E_publisher_New b m (UserAgent c), E_NewServerMetrics,
                E_NewServer (GRPC_Address c), E_Fatal ''Unable to setup Publisher gRPC server'' err],
               Exit 1)
          | Inr _ \<Rightarrow>
             (case FilterShutdownErrors (shutdown_induced env) (Serve env) of
                Inl err \<Rightarrow>
                  ([E_TLS_Load, E_Clock, E_publisher_New b m (UserAgent c), E_NewServerMetrics,
                    E_NewServer (GRPC_Address c), E_NewPublisherServerWrapper,
                    E_RegisterPublisherServer, E_health_NewServer, E_RegisterHealthServer,
                    E_CatchSignals [hs_Shutdown, grpcSrv_GracefulStop], E_Serve,
                    E_Fatal ''Publisher gRPC service failed'' err], Exit 1)
              | Inr _ \<Rightarrow>
                  ([E_TLS_Load, E_Clock, E_publisher_New b m (UserAgent c), E_NewServerMetrics,
                    E_NewServer (GRPC_Address c), E_NewPublisherServerWrapper,
                    E_RegisterPublisherServer, E_health_NewServer, E_RegisterHealthServer,
                    E_CatchSignals [hs_Shutdown, grpcSrv_GracefulStop], E_Serve,
                    E_AuditPanic], Return ()))))"
  by (simp add: serve_def bind_call FailOnError_def bind_ret os_Exit_def call_def
        shutdown_callback_def split: sum.splits)

text \<open>What each stage can contribute to the trace.\<close>

lemma exposed_append: "exposed (xs @ ys) = exposed xs @ exposed ys"
  by (induction xs rule: exposed.induct) auto

lemma exposed_preamble: "exposed (preamble fl c) = []"
  by (simp add: preamble_def)

lemma exposed_serve:
  "set (exposed (fst (serve env c b m))) \<subseteq> {(b, m, UserAgent c)}"
  by (simp add: serve_cases split: sum.splits)

lemma preamble_events:
  "E_LoadCertBundle f \<notin> set (preamble fl c)" "E_Serve \<notin> set (preamble fl c)"
  "E_Fatal msg err \<notin> set (preamble fl c)"
  by (simp_all add: preamble_def)

lemma serve_no_load: "E_LoadCertBundle f \<notin> set (fst (serve env c b m))"
  by (simp add: serve_cases split: sum.splits)

lemma resolve_events:
  assumes "ev \<in> set (fst (resolve_bundles env c))"
  shows "(\<exists>f. ev = E_LoadChain f) \<or> (\<exists>f. ev = E_LoadCertBundle f) \<or>
         (\<exists>msg err. ev = E_Fatal msg err)"
proof (cases "Chains c")
  case None
  then show ?thesis using assms
    by (cases "LoadCertBundle env (IntermediateBundleFilename c)")
       (auto simp add: resolve_legacy_ok resolve_legacy_fail)
next
  case (Some defs)
  show ?thesis
  proof (cases rule: chain_results_cases[of env defs])
    case (ok entries)
    then show ?thesis using assms Some by (auto simp add: resolve_chains_ok)
  next
    case (fail pre bad rest err entries)
    then show ?thesis using assms Some by (auto simp add: resolve_chains_fail)
  qed
qed

lemma resolve_return_events:
  assumes "resolve_bundles env c = (tr, Return bm)" and "ev \<in> set tr"
  shows "(\<exists>f. ev = E_LoadChain f) \<or> (\<exists>f. ev = E_LoadCertBundle f)"
proof (cases "Chains c")
  case None
  then show ?thesis using assms
    by (cases "LoadCertBundle env (IntermediateBundleFilename c)")
       (auto simp add: resolve_legacy_ok resolve_legacy_fail)
next
  case (Some defs)
  show ?thesis
  proof (cases rule: chain_results_cases[of env defs])
    case (ok entries)
    then show ?thesis using assms Some by (auto simp add: resolve_chains_ok)
  next
    case (fail pre bad rest err entries)
    then show ?thesis using assms Some by (auto simp add: resolve_chains_fail)
  qed
qed

lemma exposed_resolve: "exposed (fst (resolve_bundles env c)) = []"
proof -
  have "exposed tr = []"
    if "\<forall>ev \<in> set tr. (\<exists>f. ev = E_LoadChain f) \<or> (\<exists>f. ev = E_LoadCertBundle f) \<or>
                        (\<exists>msg err. ev = E_Fatal msg err)" for tr
    using that by (induction tr rule: exposed.induct) auto
  then show ?thesis using resolve_events by blast
qed

text \<open>
  Every run of \<open>main\<close> is of one of four kinds: no configuration is loaded; the
  configuration names no chain source; resolving the bundles ends the process; or the
  bundles are resolved and lines 111 to 132 run.
\<close>

lemma main_cases:
  obtains (no_config) "\<not> (\<exists>c. loads_config env fl c)" "exposed (trace (main env fl)) = []"
    "E_Serve \<notin> set (trace (main env fl))"
  | (invalid) c where "loads_config env fl c" "IntermediateBundleFilename c = []" "Chains c = None"
      "main env fl =
         (preamble fl c @ [E_AuditErr ''No CT submission bundle or chains provided''], Exit 1)"
  | (unresolved) c tr n where "loads_config env fl c" "resolve_bundles env c = (tr, Exit n)"
      "main env fl = (preamble fl c @ tr, Exit n)"
  | (resolved) c tr b m where "loads_config env fl c" "resolve_bundles env c = (tr, Return (b, m))"
      "main env fl = (preamble fl c @ tr @ fst (serve env (apply_overrides fl c) b m),
                      snd (serve env (apply_overrides fl c) b m))"
proof (cases "\<exists>c. loads_config env fl c")
  case False
  then have "exposed (trace (main env fl)) = [] \<and> E_Serve \<notin> set (trace (main env fl))"
    by (auto simp add: loads_config_def main_def trace_def bind_call bind_ret FailOnError_def
          os_Exit_def split: sum.splits)
  with False show ?thesis using no_config by blast
next
  case True
  then obtain c where c: "loads_config env fl c" by blast
  show ?thesis
  proof (cases "IntermediateBundleFilename c = [] \<and> Chains c = None")
    case True
    then have "main env fl =
        (preamble fl c @ [E_AuditErr ''No CT submission bundle or chains provided''], Exit 1)"
      using c by (simp add: main_startup startup_invalid apply_overrides_simps preamble_def)
    then show ?thesis using c True invalid by blast
  next
    case False
    note m = main_resolve[OF c False]
    obtain tr r where r: "resolve_bundles env c = (tr, r)" by (cases "resolve_bundles env c")
    show ?thesis
    proof (cases r)
      case (Exit n)
      with m r have "main env fl = (preamble fl c @ tr, Exit n)" by simp
      then show ?thesis using c r Exit unresolved by blast
    next
      case (Return bm)
      obtain b m' where bm: "bm = (b, m')" by (cases bm)
      with m r Return have
        "main env fl = (preamble fl c @ tr @ fst (serve env (apply_overrides fl c) b m'),
                        snd (serve env (apply_overrides fl c) b m'))"
        by (simp add: bind_pair)
      then show ?thesis using c r Return bm resolved by blast
    qed
  qed
qed

text \<open>Further facts about the loop over the chains and about lines 111 to 132.\<close>

lemma chain_result_Inl: "chain_result env f = Inl err \<longleftrightarrow> LoadChain env f = Inl err"
  by (cases "LoadChain env f") (auto simp add: chain_result_def)

lemma chain_result_Inr: "chain_result env f = Inr en \<Longrightarrow> \<exists>r. LoadChain env f = Inr r"
  by (cases "LoadChain env f") (auto simp add: chain_result_def)

lemma map_eq_Inr_D: "map g xs = map Inr ys \<Longrightarrow> x \<in> set xs \<Longrightarrow> \<exists>y. g x = Inr y"
  by (induction xs arbitrary: ys) auto

lemma LoadChain_events: "E_LoadCertBundle f \<notin> set (map E_LoadChain defs)"
  "exposed (map E_LoadChain defs) = []"
  by (induction defs) auto

lemma for_range_cong:
  "(\<And>x s. x \<in> set xs \<Longrightarrow> f x s = g x s) \<Longrightarrow> for_range xs f s = for_range xs g s"
proof (induction xs arbitrary: s)
  case Nil
  then show ?case by simp
next
  case (Cons x xs)
  have "for_range xs f = for_range xs g" using Cons by (intro ext) simp
  then show ?case using Cons.prems by simp
qed

lemma serve_reached:
  assumes "E_Serve \<in> set (fst (serve env c b m))"
  shows "(case FilterShutdownErrors (shutdown_induced env) (Serve env) of
            Inl err \<Rightarrow> snd (serve env c b m) = Exit 1 \<and>
                       last (fst (serve env c b m)) = E_Fatal ''Publisher gRPC service failed'' err
          | Inr _ \<Rightarrow> snd (serve env c b m) = Return () \<and>
                     (\<forall>msg err. E_Fatal msg err \<notin> set (fst (serve env c b m))))"
  using assms by (simp add: serve_cases split: sum.splits)

text \<open>Unfolding a run on the concrete installation.\<close>

lemmas ex_defs = ex_env_def ex_flags_def ex_config_def ex_LoadChain_def ex_LoadCertBundle_def

lemmas run_defs = main_def startup_def resolve_bundles_def serve_def load_chain_def
  apply_overrides_def FailOnError_def FilterShutdownErrors_def shutdown_callback_def
  bind_call bind_ret os_Exit_def call_def ret_def trace_def exit_status_def loads_config_def
  Let_def

section \<open>The default chain of an issuer\<close>

text \<open>
  Claim C1: when two chain definitions resolve to the same issuer, the mapping handed
  to the service associates that issuer with the bundle of the \<^emph>\<open>first\<close> definition.
  The field comment of \<open>Chains\<close> says so ("the first chain representing any given
  issuing key pair will be the default for that issuer"), but line 99 assigns
  \<open>bundles[id] = bundle\<close> without looking whether the key is there. On the
  configuration below both chains start with \<open>int-a.pem\<close> (issuer \<open>1\<close>); the first one
  yields the bundle \<open>[1]\<close>, the second one \<open>[2]\<close>, and \<open>publisher.New\<close> receives a mapping
  in which issuer \<open>1\<close> has the bundle of the second chain.
\<close>

theorem later_chain_overwrites_default:
  "chain_result (ex_env (ex_config (Some [[''int-a.pem'', ''root-x.pem''],
                                          [''int-a.pem'', ''root-y.pem'']]) []) (Inr ()))
     [''int-a.pem'', ''root-x.pem''] = Inr (1, [\<lparr>Data = [1]\<rparr>]) \<and>
   chain_result (ex_env (ex_config (Some [[''int-a.pem'', ''root-x.pem''],
                                          [''int-a.pem'', ''root-y.pem'']]) []) (Inr ()))
     [''int-a.pem'', ''root-y.pem''] = Inr (1, [\<lparr>Data = [2]\<rparr>]) \<and>
   map (\<lambda>(b, m, ua). m 1)
     (exposed (trace (main (ex_env (ex_config (Some [[''int-a.pem'', ''root-x.pem''],
                                                     [''int-a.pem'', ''root-y.pem'']]) [])
                              (Inr ())) ex_flags)))
     = [Some [\<lparr>Data = [2]\<rparr>]]"
  by (simp add: ex_defs run_defs chain_result_def)

section \<open>The legacy bundle\<close>

text \<open>
  Claim C2, as amended: when the chain list is absent (the \<open>nil\<close> slice) and the
  legacy filename is not empty and names a bundle that \<open>LoadCertBundle\<close> parses, the
  run loads that file, loads no chain, and goes on to lines 111 to 132 with the flat
  bundle equal, element by element and in order, to the raw bytes of the parsed
  certificates, and with an empty per-issuer mapping.
\<close>

theorem legacy_bundle_when_chains_absent:
  assumes "loads_config env fl c" and "Chains c = None" and "IntermediateBundleFilename c \<noteq> []"
    and "LoadCertBundle env (IntermediateBundleFilename c) = Inr pemBundle"
  shows "main env fl =
           bind (preamble fl c @ [E_LoadCertBundle (IntermediateBundleFilename c)], Return ())
             (\<lambda>_. serve env (apply_overrides fl c)
                     (map (\<lambda>cert. \<lparr>Data = Raw cert\<rparr>) pemBundle) Map.empty) \<and>
         (\<forall>b m ua. (b, m, ua) \<in> set (exposed (trace (main env fl))) \<longrightarrow>
            b = map (\<lambda>cert. \<lparr>Data = Raw cert\<rparr>) pemBundle \<and> m = Map.empty) \<and>
         (\<forall>files. E_LoadChain files \<notin> set (trace (main env fl)))"
proof -
  let ?b = "map (\<lambda>cert. \<lparr>Data = Raw cert\<rparr>) pemBundle"
  let ?s = "serve env (apply_overrides fl c) ?b Map.empty"
  have m: "main env fl =
           bind (preamble fl c @ [E_LoadCertBundle (IntermediateBundleFilename c)], Return ())
             (\<lambda>_. ?s)"
    using assms by (simp add: main_resolve resolve_legacy_ok bind_pair)
  then have t: "trace (main env fl) =
      preamble fl c @ [E_LoadCertBundle (IntermediateBundleFilename c)] @ fst ?s"
    by (simp add: trace_def bind_pair)
  have "set (exposed (trace (main env fl))) \<subseteq> {(?b, Map.empty, UserAgent (apply_overrides fl c))}"
    using exposed_serve[of env "apply_overrides fl c" ?b Map.empty]
    by (simp add: t exposed_append exposed_preamble)
  moreover have "E_LoadChain files \<notin> set (trace (main env fl))" for files
    by (simp add: t preamble_def serve_cases split: sum.splits)
  ultimately show ?thesis using m by blast
qed

text \<open>
  Witness for C2 as amended: with no chain list and \<open>bundle.pem\<close> holding two
  certificates, \<open>publisher.New\<close> is called once, with their raw bytes.
\<close>

theorem legacy_bundle_when_chains_absent_witness:
  "loads_config (ex_env (ex_config None ''bundle.pem'') (Inr ())) ex_flags
     (ex_config None ''bundle.pem'') \<and>
   LoadCertBundle (ex_env (ex_config None ''bundle.pem'') (Inr ())) ''bundle.pem''
     = Inr [\<lparr>Raw = [7]\<rparr>, \<lparr>Raw = [8]\<rparr>] \<and>
   map (\<lambda>(b, m, ua). (b, dom m))
     (exposed (trace (main (ex_env (ex_config None ''bundle.pem'') (Inr ())) ex_flags)))
     = [([\<lparr>Data = [7]\<rparr>, \<lparr>Data = [8]\<rparr>], {})]"
proof -
  let ?c = "ex_config None ''bundle.pem''"
  let ?env = "ex_env ?c (Inr ())"
  have h1: "loads_config ?env ex_flags ?c" by (simp add: ex_defs loads_config_def)
  have h2: "Chains ?c = None" and h3: "IntermediateBundleFilename ?c \<noteq> []"
    by (simp_all add: ex_config_def)
  have f: "IntermediateBundleFilename ?c = ''bundle.pem''" by (simp add: ex_config_def)
  have h4: "LoadCertBundle ?env (IntermediateBundleFilename ?c) = Inr [\<lparr>Raw = [7]\<rparr>, \<lparr>Raw = [8]\<rparr>]"
    by (simp add: ex_defs)
  have "\<exists>b m ua. exposed (trace (main ?env ex_flags)) = [(b, m, ua)]"
    by (simp add: ex_defs run_defs)
  then obtain b m ua where x: "exposed (trace (main ?env ex_flags)) = [(b, m, ua)]" by blast
  note t = legacy_bundle_when_chains_absent[OF h1 h2 h3 h4]
  from t have "\<forall>b m ua. (b, m, ua) \<in> set (exposed (trace (main ?env ex_flags))) \<longrightarrow>
      b = map (\<lambda>cert. \<lparr>Data = Raw cert\<rparr>) [\<lparr>Raw = [7]\<rparr>, \<lparr>Raw = [8]\<rparr>] \<and> m = Map.empty"
    by (rule conjunct1[OF conjunct2])
  with x have "b = [\<lparr>Data = [7]\<rparr>, \<lparr>Data = [8]\<rparr>] \<and> m = Map.empty"
    by simp
  with x have "map (\<lambda>(b, m, ua). (b, dom m)) (exposed (trace (main ?env ex_flags)))
                 = [([\<lparr>Data = [7]\<rparr>, \<lparr>Data = [8]\<rparr>], {})]"
    by simp
  moreover from h4 have "LoadCertBundle ?env ''bundle.pem'' = Inr [\<lparr>Raw = [7]\<rparr>, \<lparr>Raw = [8]\<rparr>]"
    by (simp only: f)
  ultimately show ?thesis using h1 by blast
qed

text \<open>
  Counterexample to C2 as stated: the chain list is present and empty, the legacy
  filename names a bundle of two certificates. Line 93 tests \<open>Chains != nil\<close>, so the
  run takes the chain branch: the flat bundle handed to \<open>publisher.New\<close> is empty and
  the legacy file is never loaded.
\<close>

theorem empty_chain_list_skips_legacy_bundle:
  "Chains (ex_config (Some []) ''bundle.pem'') = Some [] \<and>
   LoadCertBundle (ex_env (ex_config (Some []) ''bundle.pem'') (Inr ())) ''bundle.pem''
     = Inr [\<lparr>Raw = [7]\<rparr>, \<lparr>Raw = [8]\<rparr>] \<and>
   map fst (exposed (trace (main (ex_env (ex_config (Some []) ''bundle.pem'') (Inr ()))
                              ex_flags))) = [[]] \<and>
   E_LoadCertBundle ''bundle.pem''
     \<notin> set (trace (main (ex_env (ex_config (Some []) ''bundle.pem'') (Inr ())) ex_flags))"
  by (simp add: ex_defs run_defs)

section \<open>A configuration without a chain source\<close>

text \<open>
  Claim C3, as amended: when the chain list is absent (the \<open>nil\<close> slice) and the
  legacy filename is empty, the run consists of reading the configuration, setting the
  feature flags and the block profile rate, setting up statistics and logging (which
  is given the debug address), logging the version and the audit error; then the
  process exits with status 1. No chain or bundle is loaded, and neither the TLS
  configuration, the gRPC server with its listener, nor the health server is created.
\<close>

theorem no_chain_source_exits:
  assumes "loads_config env fl c" and "Chains c = None" and "IntermediateBundleFilename c = []"
  shows "main env fl =
           (preamble fl c @ [E_AuditErr ''No CT submission bundle or chains provided''], Exit 1)"
  using assms
  by (simp add: main_startup startup_invalid apply_overrides_simps preamble_def)

text \<open>Witness for C3 as amended: the whole run on a configuration with neither source.\<close>

theorem no_chain_source_exits_witness:
  "loads_config (ex_env (ex_config None []) (Inr ())) ex_flags (ex_config None []) \<and>
   main (ex_env (ex_config None []) (Inr ())) ex_flags =
     ([E_ReadConfigFile ''publisher.json'', E_features_Set, E_SetBlockProfileRate 0,
       E_StatsAndLogging '':8009'', E_Info_VersionString,
       E_AuditErr ''No CT submission bundle or chains provided''], Exit 1)"
proof -
  let ?c = "ex_config None []"
  have h1: "loads_config (ex_env ?c (Inr ())) ex_flags ?c"
    by (simp add: ex_defs loads_config_def)
  have h2: "Chains ?c = None" and h3: "IntermediateBundleFilename ?c = []"
    by (simp_all add: ex_config_def)
  from no_chain_source_exits[OF h1 h2 h3] h1 show ?thesis
    by (simp add: preamble_def apply_overrides_def ex_flags_def ex_config_def)
qed

text \<open>
  Counterexample to C3 as stated: the chain list is present and empty and the legacy
  filename is empty. The test of line 86 compares \<open>Chains\<close> with \<open>nil\<close>, so this
  configuration passes it: the gRPC server and the health server are created, and
  after a clean stop the process ends with status 0.
\<close>

theorem empty_chain_list_is_not_rejected:
  "Chains (ex_config (Some []) []) = Some [] \<and>
   IntermediateBundleFilename (ex_config (Some []) []) = [] \<and>
   exit_status (main (ex_env (ex_config (Some []) []) (Inr ())) ex_flags) = 0 \<and>
   E_NewServer '':9091'' \<in> set (trace (main (ex_env (ex_config (Some []) []) (Inr ())) ex_flags)) \<and>
   E_health_NewServer \<in> set (trace (main (ex_env (ex_config (Some []) []) (Inr ())) ex_flags))"
  by (simp add: ex_defs run_defs)

section \<open>Chains against the legacy bundle\<close>

text \<open>
  Claim C4: when the chain list is present (not \<open>nil\<close>), the legacy bundle file is
  never loaded, whatever the legacy filename is, and whatever \<open>publisher.New\<close>
  receives is built from the chain list: an empty flat bundle, and the mapping that
  the loop over the chain definitions builds from the results of \<open>LoadChain\<close>, all of
  which have succeeded.
\<close>

theorem chains_take_precedence:
  assumes "loads_config env fl c" and "Chains c = Some defs"
  shows "(\<forall>f. E_LoadCertBundle f \<notin> set (trace (main env fl))) \<and>
         (\<forall>b m ua. (b, m, ua) \<in> set (exposed (trace (main env fl))) \<longrightarrow>
            b = [] \<and> (\<exists>entries. map (chain_result env) defs = map Inr entries \<and>
                                  m = map_of (rev entries)))"
proof -
  have nv: "\<not> (IntermediateBundleFilename c = [] \<and> Chains c = None)" using assms(2) by simp
  note m = main_resolve[OF assms(1) nv]
  show ?thesis
  proof (cases rule: chain_results_cases[of env defs])
    case (ok entries)
    let ?s = "serve env (apply_overrides fl c) [] (map_of (rev entries))"
    have t: "trace (main env fl) = preamble fl c @ map E_LoadChain defs @ fst ?s"
      by (simp add: m resolve_chains_ok[OF assms(2) ok] bind_pair trace_def)
    have "E_LoadCertBundle f \<notin> set (trace (main env fl))" for f
      by (auto simp add: t preamble_events serve_no_load)
    moreover have "set (exposed (trace (main env fl)))
                     \<subseteq> {([], map_of (rev entries), UserAgent (apply_overrides fl c))}"
      using exposed_serve[of env "apply_overrides fl c" "[]" "map_of (rev entries)"]
      by (simp add: t exposed_append exposed_preamble LoadChain_events)
    ultimately show ?thesis using ok by blast
  next
    case (fail pre bad rest err entries)
    have t: "trace (main env fl) =
               preamble fl c @ map E_LoadChain pre @
               [E_LoadChain bad, E_Fatal ''Failed to load chain'' err]"
      using assms(2) fail
      by (simp add: m resolve_chains_fail[of c pre bad rest env entries err] bind_pair trace_def)
    have "E_LoadCertBundle f \<notin> set (trace (main env fl))" for f
      by (auto simp add: t preamble_events)
    moreover have "exposed (trace (main env fl)) = []"
      by (simp add: t exposed_append exposed_preamble LoadChain_events)
    ultimately show ?thesis by simp
  qed
qed

text \<open>
  Witness for C4: two chains of different issuers and a legacy filename that is set
  as well. \<open>publisher.New\<close> receives both issuers and an empty flat bundle, and
  \<open>bundle.pem\<close> is not loaded.
\<close>

theorem chains_take_precedence_witness:
  "loads_config (ex_env (ex_config (Some [[''int-a.pem'', ''root-x.pem''], [''int-b.pem'', ''root-x.pem'']])
                           ''bundle.pem'') (Inr ())) ex_flags
     (ex_config (Some [[''int-a.pem'', ''root-x.pem''], [''int-b.pem'', ''root-x.pem'']]) ''bundle.pem'') \<and>
   IntermediateBundleFilename
     (ex_config (Some [[''int-a.pem'', ''root-x.pem''], [''int-b.pem'', ''root-x.pem'']]) ''bundle.pem'')
     = ''bundle.pem'' \<and>
   map (\<lambda>(b, m, ua). (b, m 1, m 2, m 3))
     (exposed (trace (main (ex_env (ex_config (Some [[''int-a.pem'', ''root-x.pem''],
                                                     [''int-b.pem'', ''root-x.pem'']])
                                       ''bundle.pem'') (Inr ())) ex_flags)))
     = [([], Some [\<lparr>Data = [1]\<rparr>], Some [\<lparr>Data = [1]\<rparr>], None)] \<and>
   (\<forall>f. E_LoadCertBundle f
          \<notin> set (trace (main (ex_env (ex_config (Some [[''int-a.pem'', ''root-x.pem''],
                                                       [''int-b.pem'', ''root-x.pem'']])
                                         ''bundle.pem'') (Inr ())) ex_flags)))"
proof -
  let ?defs = "[[''int-a.pem'', ''root-x.pem''], [''int-b.pem'', ''root-x.pem'']]"
  let ?c = "ex_config (Some ?defs) ''bundle.pem''"
  let ?env = "ex_env ?c (Inr ())"
  have h1: "loads_config ?env ex_flags ?c" by (simp add: ex_defs loads_config_def)
  have h2: "Chains ?c = Some ?defs" by (simp add: ex_config_def)
  have h3: "IntermediateBundleFilename ?c = ''bundle.pem''" by (simp add: ex_config_def)
  have h4: "map (\<lambda>(b, m, ua). (b, m 1, m 2, m 3)) (exposed (trace (main ?env ex_flags)))
              = [([], Some [\<lparr>Data = [1]\<rparr>], Some [\<lparr>Data = [1]\<rparr>], None)]"
    by (simp add: ex_defs run_defs)
  from chains_take_precedence[OF h1 h2]
  have "\<forall>f. E_LoadCertBundle f \<notin> set (trace (main ?env ex_flags))"
    by (rule conjunct1)
  then show ?thesis using h1 h3 h4 by blast
qed

section \<open>The size of the mapping\<close>

text \<open>
  Claim C5: when each of the \<open>N\<close> chain definitions loads, \<open>entries\<close> being the
  issuer identities and bundles they yield in order, resolution ends with a mapping
  whose keys are exactly the issuer identities seen; it has as many entries as there
  are distinct identities, which is at most \<open>N\<close>, and it is the mapping that
  \<open>publisher.New\<close> receives.
\<close>

theorem one_entry_per_issuer:
  assumes "loads_config env fl c" and "Chains c = Some defs"
    and "map (chain_result env) defs = map Inr entries"
  shows "\<exists>bundles.
           resolve_bundles env c = (map E_LoadChain defs, Return ([], bundles)) \<and>
           dom bundles = fst ` set entries \<and>
           card (dom bundles) = card (fst ` set entries) \<and>
           card (dom bundles) \<le> length defs \<and>
           (\<forall>b m ua. (b, m, ua) \<in> set (exposed (trace (main env fl))) \<longrightarrow> m = bundles)"
proof -
  let ?bundles = "map_of (rev entries)"
  have d: "dom ?bundles = fst ` set entries"
    by (simp add: dom_map_of_conv_image_fst)
  have "length entries = length defs"
    using assms(3) by (metis length_map)
  then have le: "card (fst ` set entries) \<le> length defs"
    by (metis card_image_le card_length le_trans List.finite_set)
  have nv: "\<not> (IntermediateBundleFilename c = [] \<and> Chains c = None)" using assms(2) by simp
  let ?s = "serve env (apply_overrides fl c) [] ?bundles"
  have t: "trace (main env fl) = preamble fl c @ map E_LoadChain defs @ fst ?s"
    by (simp add: main_resolve[OF assms(1) nv] resolve_chains_ok[OF assms(2,3)] bind_pair trace_def)
  have "set (exposed (trace (main env fl)))
                     \<subseteq> {([], ?bundles, UserAgent (apply_overrides fl c))}"
    using exposed_serve[of env "apply_overrides fl c" "[]" ?bundles]
    by (simp add: t exposed_append exposed_preamble LoadChain_events)
  then have "\<forall>b m ua. (b, m, ua) \<in> set (exposed (trace (main env fl))) \<longrightarrow> m = ?bundles"
    by blast
  with resolve_chains_ok[OF assms(2,3)] d le show ?thesis by (intro exI[of _ ?bundles]) simp
qed

text \<open>Witness for C5: three chain definitions of two issuers give two entries.\<close>

theorem one_entry_per_issuer_witness:
  "map (chain_result (ex_env (ex_config (Some [[''int-a.pem'', ''root-x.pem''],
                                               [''int-a.pem'', ''root-y.pem''],
                                               [''int-b.pem'', ''root-x.pem'']]) []) (Inr ())))
     [[''int-a.pem'', ''root-x.pem''], [''int-a.pem'', ''root-y.pem''], [''int-b.pem'', ''root-x.pem'']]
     = map Inr [(1, [\<lparr>Data = [1]\<rparr>]), (1, [\<lparr>Data = [2]\<rparr>]), (2, [\<lparr>Data = [1]\<rparr>])] \<and>
   (\<exists>bundles.
      snd (resolve_bundles (ex_env (ex_config (Some [[''int-a.pem'', ''root-x.pem''],
                                                    [''int-a.pem'', ''root-y.pem''],
                                                    [''int-b.pem'', ''root-x.pem'']]) []) (Inr ()))
             (ex_config (Some [[''int-a.pem'', ''root-x.pem''],
                               [''int-a.pem'', ''root-y.pem''],
                               [''int-b.pem'', ''root-x.pem'']]) [])) = Return ([], bundles) \<and>
      dom bundles = {1, 2} \<and> card (dom bundles) = 2)"
proof -
  let ?defs = "[[''int-a.pem'', ''root-x.pem''], [''int-a.pem'', ''root-y.pem''],
               [''int-b.pem'', ''root-x.pem'']]"
  let ?entries = "[(1 :: IssuerNameID, [\<lparr>Data = [1]\<rparr>]), (1, [\<lparr>Data = [2]\<rparr>]),
                  (2, [\<lparr>Data = [1]\<rparr>])]"
  let ?c = "ex_config (Some ?defs) []"
  let ?env = "ex_env ?c (Inr ())"
  have h1: "loads_config ?env ex_flags ?c" by (simp add: ex_defs loads_config_def)
  have h2: "Chains ?c = Some ?defs" by (simp add: ex_config_def)
  have h3: "map (chain_result ?env) ?defs = map Inr ?entries"
    by (simp add: ex_defs chain_result_def)
  have k: "fst ` set ?entries = {1, 2}" by simp
  have k2: "card {1 :: IssuerNameID, 2} = 2" by simp
  from one_entry_per_issuer[OF h1 h2 h3] obtain bundles where
    "resolve_bundles ?env ?c = (map E_LoadChain ?defs, Return ([], bundles))"
    "dom bundles = fst ` set ?entries" "card (dom bundles) = card (fst ` set ?entries)"
    by blast
  then have "snd (resolve_bundles ?env ?c) = Return ([], bundles) \<and>
             dom bundles = {1, 2} \<and> card (dom bundles) = 2"
    by (simp only: k k2 snd_conv simp_thms)
  then show ?thesis using h3 by blast
qed

section \<open>A chain that does not load\<close>

text \<open>
  Claim C8, as amended: when some chain definition of the list does not load, the run
  stops at the first such definition: the chains before it were loaded, and the last
  event is the fatal error made of the constant message \<open>Failed to load chain\<close> and
  of the error \<open>LoadChain\<close> returned for that definition. Line 96 adds neither the
  file names nor the position of the chain, so the chain is named only as far as the
  error of \<open>LoadChain\<close> names it. The process exits with status 1 and
  \<open>publisher.New\<close> is never called, so no mapping reaches the rest of the service.
\<close>

theorem failed_chain_aborts:
  assumes "loads_config env fl c" and "Chains c = Some defs"
    and "files \<in> set defs" and "LoadChain env files = Inl err0"
  shows "\<exists>pre bad rest err.
           defs = pre @ bad # rest \<and>
           (\<forall>f \<in> set pre. \<exists>r. LoadChain env f = Inr r) \<and>
           LoadChain env bad = Inl err \<and>
           main env fl =
             (preamble fl c @ map E_LoadChain pre @
              [E_LoadChain bad, E_Fatal ''Failed to load chain'' err], Exit 1) \<and>
           exit_status (main env fl) = 1 \<and>
           exposed (trace (main env fl)) = []"
proof (cases rule: chain_results_cases[of env defs])
  case (ok entries)
  from map_eq_Inr_D[OF ok assms(3)] assms(4) show ?thesis
    by (simp add: chain_result_def)
next
  case (fail pre bad rest err entries)
  have nv: "\<not> (IntermediateBundleFilename c = [] \<and> Chains c = None)" using assms(2) by simp
  have m: "main env fl =
             (preamble fl c @ map E_LoadChain pre @
              [E_LoadChain bad, E_Fatal ''Failed to load chain'' err], Exit 1)"
    using assms(2) fail
    by (simp add: main_resolve[OF assms(1) nv]
          resolve_chains_fail[of c pre bad rest env entries err] bind_pair)
  have "\<forall>f \<in> set pre. \<exists>r. LoadChain env f = Inr r"
    using map_eq_Inr_D[OF fail(2)] chain_result_Inr by blast
  moreover have "LoadChain env bad = Inl err" using fail(3) by (simp add: chain_result_Inl)
  moreover have "exit_status (main env fl) = 1" by (simp add: m exit_status_def)
  moreover have "exposed (trace (main env fl)) = []"
    by (simp add: m trace_def exposed_append exposed_preamble LoadChain_events)
  ultimately show ?thesis using fail(1) m by blast
qed

text \<open>
  Witness for C8 as amended: the second of three chain definitions names a missing file; the
  third one is never loaded.
\<close>

theorem failed_chain_aborts_witness:
  "loads_config (ex_env (ex_config (Some [[''int-a.pem'', ''root-x.pem''], [''missing.pem''],
                                          [''int-b.pem'', ''root-x.pem'']]) []) (Inr ())) ex_flags
     (ex_config (Some [[''int-a.pem'', ''root-x.pem''], [''missing.pem''],
                       [''int-b.pem'', ''root-x.pem'']]) []) \<and>
   LoadChain (ex_env (ex_config (Some [[''int-a.pem'', ''root-x.pem''], [''missing.pem''],
                                       [''int-b.pem'', ''root-x.pem'']]) []) (Inr ()))
     [''missing.pem''] = Inl (Error ''cannot load chain'') \<and>
   main (ex_env (ex_config (Some [[''int-a.pem'', ''root-x.pem''], [''missing.pem''],
                                  [''int-b.pem'', ''root-x.pem'']]) []) (Inr ())) ex_flags =
     ([E_ReadConfigFile ''publisher.json'', E_features_Set, E_SetBlockProfileRate 0,
       E_StatsAndLogging '':8009'', E_Info_VersionString,
       E_LoadChain [''int-a.pem'', ''root-x.pem''], E_LoadChain [''missing.pem''],
       E_Fatal ''Failed to load chain'' (Error ''cannot load chain'')], Exit 1) \<and>
   exit_status (main (ex_env (ex_config (Some [[''int-a.pem'', ''root-x.pem''], [''missing.pem''],
                                  [''int-b.pem'', ''root-x.pem'']]) []) (Inr ())) ex_flags) = 1 \<and>
   exposed (trace (main (ex_env (ex_config (Some [[''int-a.pem'', ''root-x.pem''],
                                  [''missing.pem''], [''int-b.pem'', ''root-x.pem'']]) [])
                           (Inr ())) ex_flags)) = []"
proof -
  let ?defs = "[[''int-a.pem'', ''root-x.pem''], [''missing.pem''], [''int-b.pem'', ''root-x.pem'']]"
  let ?c = "ex_config (Some ?defs) []"
  let ?env = "ex_env ?c (Inr ())"
  have h1: "loads_config ?env ex_flags ?c" by (simp add: ex_defs loads_config_def)
  have h2: "Chains ?c = Some ?defs" by (simp add: ex_config_def)
  have h3: "[''missing.pem''] \<in> set ?defs" by simp
  have h4: "LoadChain ?env [''missing.pem''] = Inl (Error ''cannot load chain'')"
    by (simp add: ex_defs)
  have h5: "main ?env ex_flags =
     ([E_ReadConfigFile ''publisher.json'', E_features_Set, E_SetBlockProfileRate 0,
       E_StatsAndLogging '':8009'', E_Info_VersionString,
       E_LoadChain [''int-a.pem'', ''root-x.pem''], E_LoadChain [''missing.pem''],
       E_Fatal ''Failed to load chain'' (Error ''cannot load chain'')], Exit 1)"
    by (simp add: ex_defs run_defs)
  from failed_chain_aborts[OF h1 h2 h3 h4]
  have "exit_status (main ?env ex_flags) = 1 \<and> exposed (trace (main ?env ex_flags)) = []"
    by blast
  then show ?thesis using h1 h4 h5 by blast
qed

text \<open>
  Counterexample to C8 as stated: two configurations whose only chain definition
  fails to load, \<open>missing.pem\<close> in the one and \<open>absent.pem\<close> in the other, with a
  loader that returns the same error for both. The two runs call \<open>LoadChain\<close> on
  different chains and end with the same fatal error, which therefore does not tell
  which chain failed.
\<close>

theorem fatal_error_does_not_name_the_chain:
  "[''missing.pem''] \<noteq> [''absent.pem''] \<and>
   LoadChain (ex_env (ex_config (Some [[''missing.pem'']]) []) (Inr ())) [''missing.pem'']
     = Inl (Error ''cannot load chain'') \<and>
   LoadChain (ex_env (ex_config (Some [[''absent.pem'']]) []) (Inr ())) [''absent.pem'']
     = Inl (Error ''cannot load chain'') \<and>
   filter (\<lambda>ev. \<exists>f. ev = E_LoadChain f)
     (trace (main (ex_env (ex_config (Some [[''missing.pem'']]) []) (Inr ())) ex_flags))
     = [E_LoadChain [''missing.pem'']] \<and>
   filter (\<lambda>ev. \<exists>f. ev = E_LoadChain f)
     (trace (main (ex_env (ex_config (Some [[''absent.pem'']]) []) (Inr ())) ex_flags))
     = [E_LoadChain [''absent.pem'']] \<and>
   last (trace (main (ex_env (ex_config (Some [[''missing.pem'']]) []) (Inr ())) ex_flags))
     = E_Fatal ''Failed to load chain'' (Error ''cannot load chain'') \<and>
   last (trace (main (ex_env (ex_config (Some [[''absent.pem'']]) []) (Inr ())) ex_flags))
     = E_Fatal ''Failed to load chain'' (Error ''cannot load chain'')"
  by (simp add: ex_defs run_defs)

section \<open>Determinism of the resolution\<close>

text \<open>
  Claim C9: the outcome of lines 91 to 109 (the events, and the bundle and mapping or
  the exit) depends only on the configuration and on what the collaborators return
  for the files the configuration names. Two runs on the same configuration, against
  collaborators that agree on those files, end with equal results.
\<close>

theorem resolution_deterministic:
  assumes "\<forall>defs files. Chains c = Some defs \<and> files \<in> set defs \<longrightarrow>
             chain_result env1 files = chain_result env2 files"
    and "Chains c = None \<longrightarrow>
           LoadCertBundle env1 (IntermediateBundleFilename c) =
           LoadCertBundle env2 (IntermediateBundleFilename c)"
  shows "resolve_bundles env1 c = resolve_bundles env2 c"
proof (cases "Chains c")
  case None
  then show ?thesis using assms(2) by (simp add: resolve_bundles_def)
next
  case (Some defs)
  have "for_range defs (load_chain env1) Map.empty = for_range defs (load_chain env2) Map.empty"
    using assms(1) Some by (intro for_range_cong) (simp add: load_chain_eq)
  then show ?thesis using Some by (simp add: resolve_bundles_def)
qed

text \<open>
  Witness for C9: two sets of collaborators that differ on a chain the configuration
  does not name resolve the configuration to the same result.
\<close>

theorem resolution_deterministic_witness:
  "LoadChain (ex_env (ex_config (Some [[''int-a.pem'', ''root-x.pem''], [''int-b.pem'', ''root-x.pem'']]) [])
                (Inr ())) [''other.pem'']
     \<noteq> LoadChain ((ex_env (ex_config (Some [[''int-a.pem'', ''root-x.pem''],
                                              [''int-b.pem'', ''root-x.pem'']]) []) (Inr ()))
                     \<lparr>LoadChain := \<lambda>files. if files = [''other.pem''] then Inr (5, [])
                                             else ex_LoadChain files\<rparr>) [''other.pem''] \<and>
   resolve_bundles (ex_env (ex_config (Some [[''int-a.pem'', ''root-x.pem''],
                                             [''int-b.pem'', ''root-x.pem'']]) []) (Inr ()))
     (ex_config (Some [[''int-a.pem'', ''root-x.pem''], [''int-b.pem'', ''root-x.pem'']]) [])
   = resolve_bundles ((ex_env (ex_config (Some [[''int-a.pem'', ''root-x.pem''],
                                               [''int-b.pem'', ''root-x.pem'']]) []) (Inr ()))
                        \<lparr>LoadChain := \<lambda>files. if files = [''other.pem''] then Inr (5, [])
                                                else ex_LoadChain files\<rparr>)
     (ex_config (Some [[''int-a.pem'', ''root-x.pem''], [''int-b.pem'', ''root-x.pem'']]) [])"
proof -
  let ?defs = "[[''int-a.pem'', ''root-x.pem''], [''int-b.pem'', ''root-x.pem'']]"
  let ?c = "ex_config (Some ?defs) []"
  let ?env1 = "ex_env ?c (Inr ())"
  let ?env2 = "?env1\<lparr>LoadChain := \<lambda>files. if files = [''other.pem''] then Inr (5, [])
                                         else ex_LoadChain files\<rparr>"
  have h1: "\<forall>defs files. Chains ?c = Some defs \<and> files \<in> set defs \<longrightarrow>
              chain_result ?env1 files = chain_result ?env2 files"
    by (auto simp add: ex_env_def ex_config_def chain_result_def)
  have h2: "Chains ?c = None \<longrightarrow>
              LoadCertBundle ?env1 (IntermediateBundleFilename ?c) =
              LoadCertBundle ?env2 (IntermediateBundleFilename ?c)"
    by (simp add: ex_config_def)
  have h3: "LoadChain ?env1 [''other.pem''] \<noteq> LoadChain ?env2 [''other.pem'']"
    by (simp add: ex_env_def ex_LoadChain_def)
  from resolution_deterministic[OF h1 h2] h3 show ?thesis by blast
qed

section \<open>Shutdown\<close>

text \<open>
  The callback handed to \<open>cmd.CatchSignals\<close> calls \<open>hs.Shutdown()\<close> first and
  \<open>grpcSrv.GracefulStop()\<close> second. What the two calls do to requests in flight is
  the business of the gRPC library and is not modelled.
\<close>

lemma shutdown_callback_order:
  assumes "E_CatchSignals cb \<in> set (trace (main env fl))"
  shows "cb = [hs_Shutdown, grpcSrv_GracefulStop]"
proof (cases rule: main_cases[of env fl])
  case no_config
  then show ?thesis using assms
   by (auto simp add: loads_config_def main_def trace_def bind_call bind_ret FailOnError_def
          os_Exit_def split: sum.splits if_splits)
next
  case (invalid c)
  then show ?thesis using assms by (simp add: trace_def preamble_def)
next
  case (unresolved c tr n)
  have "E_CatchSignals cb \<notin> set tr" using resolve_events[of "E_CatchSignals cb" env c] unresolved(2) by auto
  then show ?thesis using assms unresolved by (simp add: trace_def preamble_def)
next
  case (resolved c tr b m)
  have "E_CatchSignals cb \<notin> set tr" using resolve_events[of "E_CatchSignals cb" env c] resolved(2) by auto
  then show ?thesis using assms resolved(3)
    by (simp add: trace_def preamble_def serve_cases split: sum.splits)
qed

text \<open>
  Claim C7: once \<open>grpcSrv.Serve\<close> has been called, the process ends with a non-zero
  status exactly when \<open>Serve\<close> returns an error that is not a consequence of a
  requested shutdown; that error is then the one reported. When \<open>Serve\<close> returns no
  error, or one that a shutdown induced, the process ends with status 0 and no fatal
  error is reported.
\<close>

theorem serve_error_surfaced_unless_shutdown_induced:
  assumes "E_Serve \<in> set (trace (main env fl))"
  shows "(exit_status (main env fl) \<noteq> 0 \<longleftrightarrow>
            (\<exists>err. Serve env = Inl err \<and> \<not> shutdown_induced env err)) \<and>
         (\<forall>err. Serve env = Inl err \<and> \<not> shutdown_induced env err \<longrightarrow>
            last (trace (main env fl)) = E_Fatal ''Publisher gRPC service failed'' err) \<and>
         ((\<forall>err. Serve env = Inl err \<longrightarrow> shutdown_induced env err) \<longrightarrow>
            exit_status (main env fl) = 0 \<and>
            (\<forall>msg err. E_Fatal msg err \<notin> set (trace (main env fl))))"
proof (cases rule: main_cases[of env fl])
  case no_config
  then show ?thesis using assms by simp
next
  case (invalid c)
  then show ?thesis using assms by (simp add: trace_def preamble_def)
next
  case (unresolved c tr n)
  have "E_Serve \<notin> set tr" using resolve_events[of E_Serve env c] unresolved(2) by auto
  then show ?thesis using assms unresolved by (simp add: trace_def preamble_def)
next
  case (resolved c tr b m)
  let ?s = "serve env (apply_overrides fl c) b m"
  have tr: "\<forall>ev \<in> set tr. (\<exists>f. ev = E_LoadChain f) \<or> (\<exists>f. ev = E_LoadCertBundle f)"
    using resolve_return_events[OF resolved(2)] by blast
  then have "E_Serve \<notin> set tr" by auto
  then have s: "E_Serve \<in> set (fst ?s)"
    using assms resolved(3) by (simp add: trace_def preamble_def)
  then have ne: "fst ?s \<noteq> []" by auto
  have nf: "E_Fatal msg err \<notin> set (preamble fl c @ tr)" for msg err
    using tr by (auto simp add: preamble_def)
  have t: "trace (main env fl) = (preamble fl c @ tr) @ fst ?s"
    and e: "exit_status (main env fl) = (case snd ?s of Exit n \<Rightarrow> n | Return _ \<Rightarrow> 0)"
    by (simp_all add: resolved(3) trace_def exit_status_def)
  have l: "last (trace (main env fl)) = last (fst ?s)"
    using ne by (simp add: t)
  have f: "(\<forall>msg err. E_Fatal msg err \<notin> set (trace (main env fl))) \<longleftrightarrow>
           (\<forall>msg err. E_Fatal msg err \<notin> set (fst ?s))"
    using nf by (simp add: t)
  show ?thesis
  proof (cases "Serve env")
    case (Inr u)
    then show ?thesis using serve_reached[OF s]
      by (simp add: FilterShutdownErrors_def e f)
  next
    case (Inl err)
    then show ?thesis using serve_reached[OF s]
      by (cases "shutdown_induced env err") (simp_all add: FilterShutdownErrors_def e f l)
  qed
qed

text \<open>
  Witness for C7: \<open>Serve\<close> returning the error of a closed listener ends the process
  with status 0; \<open>Serve\<close> returning another error ends it with a non-zero status and
  that error as the fatal one.
\<close>

theorem serve_error_surfaced_unless_shutdown_induced_witness:
  "E_Serve \<in> set (trace (main (ex_env (ex_config None ''bundle.pem'')
                                  (Inl (Error ''use of closed network connection''))) ex_flags)) \<and>
   exit_status (main (ex_env (ex_config None ''bundle.pem'')
                        (Inl (Error ''use of closed network connection''))) ex_flags) = 0 \<and>
   E_Serve \<in> set (trace (main (ex_env (ex_config None ''bundle.pem'')
                                  (Inl (Error ''accept: too many open files''))) ex_flags)) \<and>
   exit_status (main (ex_env (ex_config None ''bundle.pem'')
                        (Inl (Error ''accept: too many open files''))) ex_flags) \<noteq> 0 \<and>
   last (trace (main (ex_env (ex_config None ''bundle.pem'')
                        (Inl (Error ''accept: too many open files''))) ex_flags))
     = E_Fatal ''Publisher gRPC service failed'' (Error ''accept: too many open files'')"
proof -
  let ?c = "ex_config None ''bundle.pem''"
  let ?benign = "ex_env ?c (Inl (Error ''use of closed network connection''))"
  let ?genuine = "ex_env ?c (Inl (Error ''accept: too many open files''))"
  have h1: "E_Serve \<in> set (trace (main ?benign ex_flags))"
    by (simp add: ex_defs run_defs)
  have h2: "E_Serve \<in> set (trace (main ?genuine ex_flags))"
    by (simp add: ex_defs run_defs)
  have b: "\<forall>err. Serve ?benign = Inl err \<longrightarrow> shutdown_induced ?benign err"
    by (simp add: ex_env_def)
  have g: "Serve ?genuine = Inl (Error ''accept: too many open files'') \<and>
           \<not> shutdown_induced ?genuine (Error ''accept: too many open files'')"
    by (simp add: ex_env_def)
  from serve_error_surfaced_unless_shutdown_induced[OF h1] b
  have r1: "exit_status (main ?benign ex_flags) = 0" by blast
  from serve_error_surfaced_unless_shutdown_induced[OF h2] g
  have r2: "exit_status (main ?genuine ex_flags) \<noteq> 0"
    and r3: "last (trace (main ?genuine ex_flags))
              = E_Fatal ''Publisher gRPC service failed'' (Error ''accept: too many open files'')"
    by blast+
  from h1 h2 r1 r2 r3 show ?thesis by blast
qed

section \<open>The user agent\<close>

text \<open>
  Claim C10: whenever \<open>publisher.New\<close> is called, the user agent it receives is
  \<open>certificate-transparency-go/1.0\<close> if the configured one is empty, and the
  configured one otherwise.
\<close>

theorem user_agent_default:
  assumes "loads_config env fl c"
    and "(b, m, ua) \<in> set (exposed (trace (main env fl)))"
  shows "ua = (if UserAgent c = [] then ''certificate-transparency-go/1.0'' else UserAgent c)"
proof (cases rule: main_cases[of env fl])
  case no_config
  then show ?thesis using assms by simp
next
  case (invalid c')
  then show ?thesis using assms by (simp add: trace_def exposed_append exposed_preamble)
next
  case (unresolved c' tr n)
  then have "exposed tr = []" using exposed_resolve[of env c'] by simp
  then show ?thesis using assms unresolved by (simp add: trace_def exposed_append exposed_preamble)
next
  case (resolved c' tr b' m')
  then have "exposed tr = []" using exposed_resolve[of env c'] by simp
  moreover have "c' = c" using assms(1) resolved(1) by (simp add: loads_config_def)
  ultimately have "(b, m, ua) \<in> set (exposed (fst (serve env (apply_overrides fl c) b' m')))"
    using assms resolved by (simp add: trace_def exposed_append exposed_preamble)
  then have "ua = UserAgent (apply_overrides fl c)" using exposed_serve by fastforce
  then show ?thesis by (simp add: apply_overrides_simps)
qed

text \<open>
  Witness for C10: a run with an empty user agent reaches \<open>publisher.New\<close> with the
  default, and a run with the user agent \<open>boulder\<close> reaches it with \<open>boulder\<close>.
\<close>

theorem user_agent_default_witness:
  "loads_config (ex_env (ex_config None ''bundle.pem'') (Inr ())) ex_flags
     (ex_config None ''bundle.pem'') \<and>
   UserAgent (ex_config None ''bundle.pem'') = [] \<and>
   map (\<lambda>(b, m, ua). ua)
     (exposed (trace (main (ex_env (ex_config None ''bundle.pem'') (Inr ())) ex_flags)))
     = [''certificate-transparency-go/1.0''] \<and>
   map (\<lambda>(b, m, ua). ua)
     (exposed (trace (main (ex_env ((ex_config None ''bundle.pem'')\<lparr>UserAgent := ''boulder''\<rparr>)
                              (Inr ())) ex_flags)))
     = [''boulder'']"
proof -
  let ?c = "ex_config None ''bundle.pem''"
  let ?env = "ex_env ?c (Inr ())"
  let ?c' = "?c\<lparr>UserAgent := ''boulder''\<rparr>"
  let ?env' = "ex_env ?c' (Inr ())"
  have h1: "loads_config ?env ex_flags ?c" by (simp add: ex_defs loads_config_def)
  have h1': "loads_config ?env' ex_flags ?c'" by (simp add: ex_defs loads_config_def)
  have e: "\<exists>b m ua. exposed (trace (main ?env ex_flags)) = [(b, m, ua)]"
    by (simp add: ex_defs run_defs)
  have e': "\<exists>b m ua. exposed (trace (main ?env' ex_flags)) = [(b, m, ua)]"
    by (simp add: ex_defs run_defs)
  from e obtain b m ua where x: "exposed (trace (main ?env ex_flags)) = [(b, m, ua)]" by blast
  from e' obtain b' m' ua' where x': "exposed (trace (main ?env' ex_flags)) = [(b', m', ua')]"
    by blast
  have "ua = ''certificate-transparency-go/1.0''"
    using user_agent_default[OF h1, of b m ua] x by (simp add: ex_config_def)
  moreover have "ua' = ''boulder''"
    using user_agent_default[OF h1', of b' m' ua'] x' by (simp add: ex_config_def)
  ultimately show ?thesis using h1 x x' by (simp add: ex_config_def)
qed

end
